theory Spec2Isabelle
  imports Main "HOL-Library.Word" "HOL-Library.Monad_Syntax"
begin

unbundle bit_operations_syntax

section \<open>Data model of the driver\<close>

text \<open>
  The driver is a trimmed copy of the kernel's Sony HID driver. Its C types are kept:
  \<open>u8\<close> is an 8-bit word, \<open>unsigned long\<close> (the quirk mask) a 64-bit word, \<open>int\<close>
  results (return codes, the device id, the axis values, none of which can leave the
  32-bit range here) are HOL integers.
\<close>

type_synonym u8 = "8 word"
type_synonym ulong = "64 word"

definition BIT :: "nat \<Rightarrow> ulong" where
  "BIT n = push_bit n 1"

definition SIXAXIS_CONTROLLER_USB :: ulong where
  "SIXAXIS_CONTROLLER_USB = BIT 1"

definition SIXAXIS_CONTROLLER_BT :: ulong where
  "SIXAXIS_CONTROLLER_BT = BIT 2"

definition GH_GUITAR_CONTROLLER :: ulong where
  "GH_GUITAR_CONTROLLER = BIT 14"

definition SIXAXIS_CONTROLLER :: ulong where
  "SIXAXIS_CONTROLLER = SIXAXIS_CONTROLLER_USB OR SIXAXIS_CONTROLLER_BT"

definition SONY_BT_DEVICE :: ulong where
  "SONY_BT_DEVICE = SIXAXIS_CONTROLLER_BT"

definition SIXAXIS_INPUT_REPORT_ACC_X_OFFSET :: nat where
  "SIXAXIS_INPUT_REPORT_ACC_X_OFFSET = 41"

text \<open>The kernel's error numbers that the driver returns negated.\<close>

definition EINVAL :: int where
  "EINVAL = 22"

definition EEXIST :: int where
  "EEXIST = 17"

text \<open>The values of \<open>battery_status\<close> (the kernel's power supply status enumeration).\<close>

datatype power_supply_status =
    POWER_SUPPLY_STATUS_UNKNOWN
  | POWER_SUPPLY_STATUS_CHARGING
  | POWER_SUPPLY_STATUS_DISCHARGING
  | POWER_SUPPLY_STATUS_NOT_CHARGING
  | POWER_SUPPLY_STATUS_FULL

text \<open>
  What the driver hands to the input core through \<open>input_report_abs\<close> and
  \<open>input_sync\<close> on the sensor device.
\<close>

datatype abs_code = ABS_X | ABS_Y | ABS_Z

datatype input_event = INPUT_ABS abs_code int | INPUT_SYNC

datatype sony_worker = SONY_WORKER_STATE

text \<open>
  The output report of the Sixaxis, \<open>struct sixaxis_output_report\<close> with its two
  member structs. All three are packed structs of \<open>u8\<close> members, 36 bytes together, and
  the driver sends the struct as it lies in memory.
\<close>

record sixaxis_led =
  time_enabled :: u8
  duty_length :: u8
  enabled :: u8
  duty_off :: u8
  duty_on :: u8

record sixaxis_rumble =
  rumble_padding :: u8
  right_duration :: u8
  right_motor_on :: u8
  left_duration :: u8
  left_motor_force :: u8

record sixaxis_output_report =
  report_id :: u8
  rumble :: sixaxis_rumble
  padding :: "u8 list"
  leds_bitmap :: u8
  led :: "sixaxis_led list"
  reserved :: sixaxis_led

text \<open>
  What the driver hands to the transport: \<open>hid_hw_request\<close> of the device's first
  output report with the field values written into it (\<open>buzz_set_leds\<close>), or
  \<open>hid_hw_raw_request\<close> of a report id and the report buffer
  (\<open>sixaxis_send_output_report\<close>).
\<close>

datatype hid_xfer = HW_REQUEST "int list" | RAW_REQUEST u8 sixaxis_output_report

text \<open>The functions that the pointer \<open>send_output_report\<close> can hold.\<close>

datatype output_sender = SIXAXIS_SEND_OUTPUT_REPORT

text \<open>
  \<open>struct sony_sc\<close>. The arrays of \<open>MAX_LEDS\<close> entries and the 6-byte address are lists;
  \<open>leds\<close> holds the identities of the registered LED class devices (the C code compares
  pointers). Three members stand for kernel objects the driver only passes on:
  \<open>sensor_dev\<close> is the sequence of events reported on the sensor device, \<open>hdev\<close> the
  sequence of transfers handed to the transport, and \<open>state_worker\<close> the pending bit of
  the work item (\<open>schedule_work\<close> sets it, the worker thread clears it when it starts
  the work function). \<open>output_report_dmabuf\<close> is the content of the allocated report
  buffer, seen through the cast to the report struct. \<open>left\<close> and \<open>right\<close> are the
  members of a build with force feedback. The locks are left out: the model is
  sequential.
\<close>

record sony_sc =
  hdev :: "hid_xfer list"
  sensor_dev :: "input_event list"
  leds :: "nat list"
  quirks :: ulong
  state_worker :: bool
  send_output_report :: "output_sender option"
  device_id :: int
  output_report_dmabuf :: sixaxis_output_report
  left :: u8
  right :: u8
  mac_address :: "u8 list"
  state_worker_initialized :: u8
  defer_initialization :: u8
  battery_capacity :: u8
  battery_status :: power_supply_status
  led_state :: "u8 list"
  led_delay_on :: "u8 list"
  led_delay_off :: "u8 list"
  led_count :: u8

section \<open>Scheduling the state worker\<close>

definition schedule_work :: "sony_sc \<Rightarrow> sony_sc" where
  "schedule_work sc = sc\<lparr>state_worker := True\<rparr>"

fun sony_schedule_work :: "sony_sc \<Rightarrow> sony_worker \<Rightarrow> sony_sc" where
  "sony_schedule_work sc SONY_WORKER_STATE =
     (if defer_initialization sc = 0 \<and> state_worker_initialized sc \<noteq> 0
      then schedule_work sc else sc)"

section \<open>Decoding input reports\<close>

text \<open>
  \<open>rd\<close> is a pointer into the transport's buffer and \<open>size\<close> (here \<open>sz\<close>) the
  length of the report in it. The model takes the buffer as a list, which may be longer
  than the report; a read or write past the end of the buffer is a memory fault, the
  result \<open>None\<close>. The axis values are computed in \<open>int\<close> from bytes promoted to
  \<open>int\<close>: a shift by 8 and a bitwise or of two values below 256, then a difference
  with 511.
\<close>

definition rd_at :: "u8 list \<Rightarrow> nat \<Rightarrow> u8 option" where
  "rd_at rd i = (if i < length rd then Some (rd ! i) else None)"

definition swap :: "u8 list \<Rightarrow> nat \<Rightarrow> nat \<Rightarrow> u8 list option" where
  "swap rd i j =
     (if i < length rd \<and> j < length rd then Some (rd[i := rd ! j, j := rd ! i]) else None)"

definition input_report_abs :: "sony_sc \<Rightarrow> abs_code \<Rightarrow> int \<Rightarrow> sony_sc" where
  "input_report_abs sc code val = sc\<lparr>sensor_dev := sensor_dev sc @ [INPUT_ABS code val]\<rparr>"

definition input_sync :: "sony_sc \<Rightarrow> sony_sc" where
  "input_sync sc = sc\<lparr>sensor_dev := sensor_dev sc @ [INPUT_SYNC]\<rparr>"

definition sixaxis_battery_capacity :: "u8 list" where
  "sixaxis_battery_capacity = [0, 1, 25, 50, 75, 100]"

definition sixaxis_parse_report :: "sony_sc \<Rightarrow> u8 list \<Rightarrow> int \<Rightarrow> sony_sc option" where
  "sixaxis_parse_report sc rd sz = do {
     rd30 \<leftarrow> rd_at rd 30;
     let capacity =
       (if rd30 \<ge> 0xee then 100
        else sixaxis_battery_capacity ! unat (if rd30 \<le> 5 then rd30 else 5));
     let status =
       (if rd30 \<ge> 0xee
        then (if rd30 AND 0x01 \<noteq> 0 then POWER_SUPPLY_STATUS_FULL
              else POWER_SUPPLY_STATUS_CHARGING)
        else POWER_SUPPLY_STATUS_DISCHARGING);
     let sc = sc\<lparr>battery_capacity := capacity, battery_status := status\<rparr>;
     if quirks sc AND SIXAXIS_CONTROLLER \<noteq> 0 then do {
       let offset = SIXAXIS_INPUT_REPORT_ACC_X_OFFSET;
       hi \<leftarrow> rd_at rd (offset + 1);
       lo \<leftarrow> rd_at rd offset;
       let sc = input_report_abs sc ABS_X ((push_bit 8 (uint hi) OR uint lo) - 511);
       hi \<leftarrow> rd_at rd (offset + 35);
       lo \<leftarrow> rd_at rd (offset + 4);
       let sc = input_report_abs sc ABS_Y (511 - (push_bit 8 (uint hi) OR uint lo));
       hi \<leftarrow> rd_at rd (offset + 3);
       lo \<leftarrow> rd_at rd (offset + 2);
       let sc = input_report_abs sc ABS_Z (511 - (push_bit 8 (uint hi) OR uint lo));
       Some (input_sync sc)
     } else Some sc
   }"

text \<open>
  The end of \<open>sony_raw_event\<close>, reached by every path that does not return early: the
  deferred initialisation and \<open>return 0\<close>.
\<close>

definition sony_raw_event_finish :: "sony_sc \<Rightarrow> u8 list \<Rightarrow> int \<times> sony_sc \<times> u8 list" where
  "sony_raw_event_finish sc rd =
     (if defer_initialization sc \<noteq> 0
      then (0, sony_schedule_work (sc\<lparr>defer_initialization := 0\<rparr>) SONY_WORKER_STATE, rd)
      else (0, sc, rd))"

text \<open>
  \<open>sony_raw_event\<close> returns its result code, the device state and the buffer, which it
  changes in place. The condition of the first \<open>if\<close> is evaluated left to right, so
  \<open>rd[0]\<close> is read only for a Sixaxis and before \<open>size\<close> is looked at.
\<close>

definition sony_raw_event ::
  "sony_sc \<Rightarrow> u8 list \<Rightarrow> int \<Rightarrow> (int \<times> sony_sc \<times> u8 list) option" where
  "sony_raw_event sc rd sz =
     (if quirks sc AND SIXAXIS_CONTROLLER \<noteq> 0 then do {
        rd0 \<leftarrow> rd_at rd 0;
        if rd0 = 0x01 \<and> sz = 49 then do {
          rd1 \<leftarrow> rd_at rd 1;
          if rd1 = 0xff then Some (- EINVAL, sc, rd)
          else do {
            rd \<leftarrow> swap rd 41 42;
            rd \<leftarrow> swap rd 43 44;
            rd \<leftarrow> swap rd 45 46;
            rd \<leftarrow> swap rd 47 48;
            sc \<leftarrow> sixaxis_parse_report sc rd sz;
            Some (sony_raw_event_finish sc rd)
          }
        } else Some (sony_raw_event_finish sc rd)
      } else Some (sony_raw_event_finish sc rd))"

section \<open>Encoding and sending the output report\<close>

text \<open>
  \<open>default_report\<close> is given in the source as the 36 bytes of the union's \<open>buf\<close>; here
  they are read through the packed struct: byte 0 is the report id, bytes 1 to 5 the
  rumble struct, 6 to 9 the padding, 10 the LED bitmap, 11 to 30 the four LED structs
  and 31 to 35 the reserved one.
\<close>

definition default_led :: sixaxis_led where
  "default_led =
     \<lparr>time_enabled = 0xff, duty_length = 0x27, enabled = 0x10, duty_off = 0x00,
      duty_on = 0x32\<rparr>"

definition default_report :: sixaxis_output_report where
  "default_report =
     \<lparr>report_id = 0x01,
      rumble = \<lparr>rumble_padding = 0x01, right_duration = 0xff, right_motor_on = 0x00,
                left_duration = 0xff, left_motor_force = 0x00\<rparr>,
      padding = [0x00, 0x00, 0x00, 0x00],
      leds_bitmap = 0x00,
      led = [default_led, default_led, default_led, default_led],
      reserved = \<lparr>time_enabled = 0x00, duty_length = 0x00, enabled = 0x00,
                  duty_off = 0x00, duty_on = 0x00\<rparr>\<rparr>"

text \<open>
  The loop over the four LEDs that copies the blink delays. The shifts of the LED states
  are done in \<open>int\<close> in C and cut to a byte by the assignment, which is the shift on
  the 8-bit word.
\<close>

primrec sixaxis_led_delays ::
  "nat list \<Rightarrow> sony_sc \<Rightarrow> sixaxis_output_report \<Rightarrow> sixaxis_output_report" where
  "sixaxis_led_delays [] sc report = report"
| "sixaxis_led_delays (n # ns) sc report =
     sixaxis_led_delays ns sc
       (if led_delay_on sc ! n \<noteq> 0 \<or> led_delay_off sc ! n \<noteq> 0
        then report\<lparr>led := (led report)[3 - n :=
               (led report ! (3 - n))\<lparr>duty_off := led_delay_off sc ! n,
                                        duty_on := led_delay_on sc ! n\<rparr>]\<rparr>
        else report)"

definition sixaxis_send_output_report :: "sony_sc \<Rightarrow> sony_sc" where
  "sixaxis_send_output_report sc =
     (let report = default_report;
          report = report\<lparr>rumble := (rumble report)
                     \<lparr>right_motor_on := (if right sc \<noteq> 0 then 1 else 0),
                      left_motor_force := left sc\<rparr>\<rparr>;
          report = report\<lparr>leds_bitmap := leds_bitmap report OR push_bit 1 (led_state sc ! 0)\<rparr>;
          report = report\<lparr>leds_bitmap := leds_bitmap report OR push_bit 2 (led_state sc ! 1)\<rparr>;
          report = report\<lparr>leds_bitmap := leds_bitmap report OR push_bit 3 (led_state sc ! 2)\<rparr>;
          report = report\<lparr>leds_bitmap := leds_bitmap report OR push_bit 4 (led_state sc ! 3)\<rparr>;
          report = (if leds_bitmap report AND 0x1E = 0
                    then report\<lparr>leds_bitmap := leds_bitmap report OR 0x20\<rparr>
                    else report);
          report = sixaxis_led_delays [0, 1, 2, 3] sc report
      in sc\<lparr>output_report_dmabuf := report,
            hdev := hdev sc @ [RAW_REQUEST (report_id report) report]\<rparr>)"

text \<open>
  The work function calls through the pointer; a call through a null pointer is a fault,
  the result \<open>None\<close>.
\<close>

definition sony_state_worker :: "sony_sc \<Rightarrow> sony_sc option" where
  "sony_state_worker sc =
     (case send_output_report sc of
        None \<Rightarrow> None
      | Some SIXAXIS_SEND_OUTPUT_REPORT \<Rightarrow> Some (sixaxis_send_output_report sc))"

text \<open>
  One turn of the kernel's worker thread on this device: a pending work item is taken
  off the queue, its pending bit cleared, and the work function run.
\<close>

definition process_one_work :: "sony_sc \<Rightarrow> sony_sc option" where
  "process_one_work sc =
     (if state_worker sc then sony_state_worker (sc\<lparr>state_worker := False\<rparr>) else Some sc)"

definition sony_init_output_report :: "sony_sc \<Rightarrow> output_sender \<Rightarrow> sony_sc" where
  "sony_init_output_report sc sender =
     (let sc = sc\<lparr>send_output_report := Some sender\<rparr>;
          sc = (if state_worker_initialized sc = 0 then sc\<lparr>state_worker := False\<rparr> else sc)
      in sc\<lparr>state_worker_initialized := 1\<rparr>)"

section \<open>Setting the LEDs\<close>

text \<open>
  \<open>sixaxis_set_leds_from_id\<close>, which \<open>sony_leds_init\<close> calls before it registers the
  LEDs: the pattern of the device id, taken modulo 10, is copied over the four LED
  states (the id is not negative where the remainder is taken).
\<close>

definition sixaxis_leds :: "u8 list list" where
  "sixaxis_leds =
     [[0x01, 0x00, 0x00, 0x00],
      [0x00, 0x01, 0x00, 0x00],
      [0x00, 0x00, 0x01, 0x00],
      [0x00, 0x00, 0x00, 0x01],
      [0x01, 0x00, 0x00, 0x01],
      [0x00, 0x01, 0x00, 0x01],
      [0x00, 0x00, 0x01, 0x01],
      [0x01, 0x00, 0x01, 0x01],
      [0x00, 0x01, 0x01, 0x01],
      [0x01, 0x01, 0x01, 0x01]]"

definition sixaxis_set_leds_from_id :: "sony_sc \<Rightarrow> sony_sc" where
  "sixaxis_set_leds_from_id sc =
     (let id = device_id sc
      in if id < 0 then sc
         else sc\<lparr>led_state := sixaxis_leds ! nat (id mod 10)\<rparr>)"

definition buzz_set_leds :: "sony_sc \<Rightarrow> sony_sc" where
  "buzz_set_leds sc =
     sc\<lparr>hdev := hdev sc @
       [HW_REQUEST
         [0x00,
          if led_state sc ! 0 \<noteq> 0 then 0xff else 0x00,
          if led_state sc ! 1 \<noteq> 0 then 0xff else 0x00,
          if led_state sc ! 2 \<noteq> 0 then 0xff else 0x00,
          if led_state sc ! 3 \<noteq> 0 then 0xff else 0x00,
          0x00,
          0x00]]\<rparr>"

definition sony_set_leds :: "sony_sc \<Rightarrow> sony_sc" where
  "sony_set_leds sc = buzz_set_leds sc"

text \<open>
  The loop of \<open>sony_led_set_brightness\<close> over the indices below \<open>led_count\<close>:
  \<open>led_dev\<close> is the LED class device of the call, \<open>val\<close> the brightness (an unsigned
  enumeration value, compared with the stored byte and cut to a byte when stored). The
  driver data of the device is taken as present; without it the LED functions return at
  once.
\<close>

primrec sony_led_set_brightness_loop ::
  "nat list \<Rightarrow> sony_sc \<Rightarrow> nat \<Rightarrow> 32 word \<Rightarrow> bool \<Rightarrow> sony_sc" where
  "sony_led_set_brightness_loop [] drv_data led_dev val force_update = drv_data"
| "sony_led_set_brightness_loop (n # ns) drv_data led_dev val force_update =
     (if led_dev = leds drv_data ! n \<and>
         (force_update \<or>
           (val \<noteq> ucast (led_state drv_data ! n) \<or>
            led_delay_on drv_data ! n \<noteq> 0 \<or>
            led_delay_off drv_data ! n \<noteq> 0))
      then sony_set_leds
             (drv_data\<lparr>led_state := (led_state drv_data)[n := ucast val],
                       led_delay_on := (led_delay_on drv_data)[n := 0],
                       led_delay_off := (led_delay_off drv_data)[n := 0]\<rparr>)
      else sony_led_set_brightness_loop ns drv_data led_dev val force_update)"

definition sony_led_set_brightness :: "sony_sc \<Rightarrow> nat \<Rightarrow> 32 word \<Rightarrow> sony_sc" where
  "sony_led_set_brightness drv_data led_dev val =
     (let force_update = (quirks drv_data AND SIXAXIS_CONTROLLER_USB \<noteq> 0)
      in sony_led_set_brightness_loop [0 ..< unat (led_count drv_data)]
           drv_data led_dev val force_update)"

text \<open>
  \<open>sony_led_blink_set\<close> returns its result code, the device state and the two delays,
  which it may change through the pointers.
\<close>

primrec sony_led_blink_set_find :: "nat list \<Rightarrow> sony_sc \<Rightarrow> nat \<Rightarrow> nat option" where
  "sony_led_blink_set_find [] drv_data led_dev = None"
| "sony_led_blink_set_find (n # ns) drv_data led_dev =
     (if led_dev = leds drv_data ! n then Some n
      else sony_led_blink_set_find ns drv_data led_dev)"

definition sony_led_blink_set ::
  "sony_sc \<Rightarrow> nat \<Rightarrow> ulong \<Rightarrow> ulong \<Rightarrow> int \<times> sony_sc \<times> ulong \<times> ulong" where
  "sony_led_blink_set drv_data led_dev delay_on delay_off =
     (let delay_on = (if delay_on > 2550 then 2550 else delay_on);
          delay_off = (if delay_off > 2550 then 2550 else delay_off);
          (delay_on, delay_off) =
            (if delay_on = 0 \<and> delay_off = 0 then (500, 500) else (delay_on, delay_off));
          new_on = (ucast (delay_on div 10) :: u8);
          new_off = (ucast (delay_off div 10) :: u8)
      in case sony_led_blink_set_find [0 ..< unat (led_count drv_data)] drv_data led_dev of
           None \<Rightarrow> (- EINVAL, drv_data, delay_on, delay_off)
         | Some n \<Rightarrow>
             (if new_on \<noteq> led_delay_on drv_data ! n \<or> new_off \<noteq> led_delay_off drv_data ! n
              then (0,
                    sony_schedule_work
                      (drv_data\<lparr>led_delay_on := (led_delay_on drv_data)[n := new_on],
                                led_delay_off := (led_delay_off drv_data)[n := new_off]\<rparr>)
                      SONY_WORKER_STATE,
                    delay_on, delay_off)
              else (0, drv_data, delay_on, delay_off)))"

section \<open>The list of connected devices\<close>

definition sony_compare_connection_type :: "sony_sc \<Rightarrow> sony_sc \<Rightarrow> int" where
  "sony_compare_connection_type sc0 sc1 =
     (let sc0_not_bt = (if quirks sc0 AND SONY_BT_DEVICE = 0 then 1 else 0 :: int);
          sc1_not_bt = (if quirks sc1 AND SONY_BT_DEVICE = 0 then 1 else 0 :: int)
      in if sc0_not_bt = sc1_not_bt then 1 else 0)"

text \<open>
  The walk of \<open>sony_check_add_dev_list\<close> over the list, from its head: the result code
  at the first entry with the same address (\<open>memcmp\<close> over the six bytes is equality
  of the address arrays), \<open>None\<close> when the walk reaches the end.
\<close>

primrec sony_check_add_dev_list_walk :: "sony_sc \<Rightarrow> sony_sc list \<Rightarrow> int option" where
  "sony_check_add_dev_list_walk sc [] = None"
| "sony_check_add_dev_list_walk sc (entry # entries) =
     (if mac_address sc = mac_address entry
      then (if sony_compare_connection_type sc entry \<noteq> 0 then Some 1 else Some (- EEXIST))
      else sony_check_add_dev_list_walk sc entries)"

text \<open>
  \<open>sony_check_add_dev_list\<close> on the global \<open>sony_device_list\<close>: the result code and
  the list afterwards (\<open>list_add\<close> puts the new node at the head).
\<close>

definition sony_check_add_dev_list :: "sony_sc \<Rightarrow> sony_sc list \<Rightarrow> int \<times> sony_sc list" where
  "sony_check_add_dev_list sc sony_device_list =
     (case sony_check_add_dev_list_walk sc sony_device_list of
        Some ret \<Rightarrow> (ret, sony_device_list)
      | None \<Rightarrow> (0, sc # sony_device_list))"

section \<open>The device id\<close>

text \<open>
  The id allocator is the kernel's: its state is the set of ids in use, and freeing an
  id that is not in use is the error the kernel warns about, the result \<open>None\<close>.
\<close>

definition ida_free :: "nat set \<Rightarrow> nat \<Rightarrow> nat set option" where
  "ida_free ida n = (if n \<in> ida then Some (ida - {n}) else None)"

definition sony_release_device_id :: "sony_sc \<Rightarrow> nat set \<Rightarrow> (sony_sc \<times> nat set) option" where
  "sony_release_device_id sc sony_device_id_allocator =
     (if device_id sc \<ge> 0 then do {
        ida \<leftarrow> ida_free sony_device_id_allocator (nat (device_id sc));
        Some (sc\<lparr>device_id := - 1\<rparr>, ida)
      } else Some (sc, sony_device_id_allocator))"

text \<open>A device structure as \<open>devm_kzalloc\<close> gives it to \<open>sony_probe\<close>: all zero.\<close>

definition zeroed_led :: sixaxis_led where
  "zeroed_led = \<lparr>time_enabled = 0, duty_length = 0, enabled = 0, duty_off = 0, duty_on = 0\<rparr>"

definition zeroed_sc :: sony_sc where
  "zeroed_sc =
     \<lparr>hdev = [], sensor_dev = [], leds = [0, 0, 0, 0], quirks = 0, state_worker = False,
      send_output_report = None, device_id = 0,
      output_report_dmabuf =
        \<lparr>report_id = 0,
         rumble = \<lparr>rumble_padding = 0, right_duration = 0, right_motor_on = 0,
                   left_duration = 0, left_motor_force = 0\<rparr>,
         padding = [0, 0, 0, 0], leds_bitmap = 0,
         led = [zeroed_led, zeroed_led, zeroed_led, zeroed_led], reserved = zeroed_led\<rparr>,
      left = 0, right = 0, mac_address = [0, 0, 0, 0, 0, 0],
      state_worker_initialized = 0, defer_initialization = 0, battery_capacity = 0,
      battery_status = POWER_SUPPLY_STATUS_UNKNOWN, led_state = [0, 0, 0, 0],
      led_delay_on = [0, 0, 0, 0], led_delay_off = [0, 0, 0, 0], led_count = 0\<rparr>"

section \<open>Auxiliary facts\<close>

lemma all_less_4: "(\<forall>n<4. P n) = (P 0 \<and> P 1 \<and> P 2 \<and> P (3::nat))"
proof -
  have "{..<4::nat} = {0, 1, 2, 3}" by auto
  then have "(\<forall>n<4. P n) = (\<forall>n \<in> {0, 1, 2, 3}. P n)" by (metis lessThan_iff)
  then show ?thesis by simp
qed

lemma low_bit_set: "(w AND 1 \<noteq> 0) = bit (w::u8) 0"
  by (simp add: and_one_eq bit_0 odd_iff_mod_2_eq_one)

lemma clamped_index: "unat (if (w::u8) \<le> 5 then w else 5) = min (unat w) 5"
  by (simp add: word_le_nat_alt min_def)

lemma u8_le_1_cases: "(w::u8) \<le> 1 \<Longrightarrow> w = 0 \<or> w = 1"
  by (auto simp: order_le_less)

section \<open>The battery byte\<close>

lemma sixaxis_parse_report_battery:
  assumes "sixaxis_parse_report sc rd sz = Some sc'"
  shows "30 < length rd \<and>
     battery_capacity sc' =
       (if rd ! 30 \<ge> 0xee then 100
        else sixaxis_battery_capacity ! unat (if rd ! 30 \<le> 5 then rd ! 30 else 5)) \<and>
     battery_status sc' =
       (if rd ! 30 \<ge> 0xee
        then (if rd ! 30 AND 0x01 \<noteq> 0 then POWER_SUPPLY_STATUS_FULL
              else POWER_SUPPLY_STATUS_CHARGING)
        else POWER_SUPPLY_STATUS_DISCHARGING)"
  using assms
  by (auto simp: sixaxis_parse_report_def rd_at_def Let_def input_report_abs_def input_sync_def
      split: if_splits Option.bind_splits)

lemma sixaxis_parse_report_returns:
  "77 \<le> length rd \<Longrightarrow> sixaxis_parse_report sc rd sz \<noteq> None"
  by (simp add: sixaxis_parse_report_def rd_at_def SIXAXIS_INPUT_REPORT_ACC_X_OFFSET_def Let_def)

text \<open>
  Claim C2. Whenever \<open>sixaxis_parse_report\<close> decodes a report, the battery byte at
  offset 30 decides the stored battery values: a byte of at least 0xEE gives capacity
  100, with status Full when its lowest bit is set and Charging otherwise; a smaller
  byte is cut to at most 5 and looked up in the table 0, 1, 25, 50, 75, 100, with status
  Discharging. The decoding does return a result when the buffer holds the 77 bytes the
  function reads.
\<close>

theorem sixaxis_parse_report_battery_mapping:
  "(sixaxis_parse_report sc rd sz = Some sc' \<longrightarrow>
      battery_capacity sc' =
        (if 0xEE \<le> rd ! 30 then 100 else [0, 1, 25, 50, 75, 100] ! min (unat (rd ! 30)) 5) \<and>
      battery_status sc' =
        (if 0xEE \<le> rd ! 30
         then (if bit (rd ! 30) 0 then POWER_SUPPLY_STATUS_FULL
               else POWER_SUPPLY_STATUS_CHARGING)
         else POWER_SUPPLY_STATUS_DISCHARGING)) \<and>
   (77 \<le> length rd \<longrightarrow> sixaxis_parse_report sc rd sz \<noteq> None)"
proof (intro conjI impI)
  assume a: "sixaxis_parse_report sc rd sz = Some sc'"
  note s = sixaxis_parse_report_battery [OF a]
  show "battery_capacity sc' =
        (if 0xEE \<le> rd ! 30 then 100 else [0, 1, 25, 50, 75, 100] ! min (unat (rd ! 30)) 5)"
    using s by (simp only: clamped_index sixaxis_battery_capacity_def)
  show "battery_status sc' =
        (if 0xEE \<le> rd ! 30
         then (if bit (rd ! 30) 0 then POWER_SUPPLY_STATUS_FULL
               else POWER_SUPPLY_STATUS_CHARGING)
         else POWER_SUPPLY_STATUS_DISCHARGING)"
    using s by (simp only: low_bit_set)
next
  assume "77 \<le> length rd"
  then show "sixaxis_parse_report sc rd sz \<noteq> None"
    by (rule sixaxis_parse_report_returns)
qed

theorem sixaxis_parse_report_battery_mapping_witness:
  "77 \<le> length ((replicate 77 0)[30 := 9 :: u8]) \<and>
   map_option battery_capacity
     (sixaxis_parse_report (zeroed_sc\<lparr>quirks := SIXAXIS_CONTROLLER_USB\<rparr>)
        ((replicate 77 0)[30 := 9]) 49) = Some 100 \<and>
   map_option battery_status
     (sixaxis_parse_report (zeroed_sc\<lparr>quirks := SIXAXIS_CONTROLLER_USB\<rparr>)
        ((replicate 77 0)[30 := 9]) 49) = Some POWER_SUPPLY_STATUS_DISCHARGING"
proof -
  let ?sc = "zeroed_sc\<lparr>quirks := SIXAXIS_CONTROLLER_USB\<rparr>"
  let ?rd = "(replicate 77 0)[30 := 9 :: u8]"
  have len: "77 \<le> length ?rd" by simp
  have b: "?rd ! 30 = 9" by simp
  obtain sc' where r: "sixaxis_parse_report ?sc ?rd 49 = Some sc'"
    using sixaxis_parse_report_battery_mapping [of ?sc ?rd 49] len by blast
  have "battery_capacity sc' = 100 \<and> battery_status sc' = POWER_SUPPLY_STATUS_DISCHARGING"
    using sixaxis_parse_report_battery_mapping [of ?sc ?rd 49 sc'] r unfolding b by simp
  then show ?thesis using len r by simp
qed

text \<open>The examples of the battery mapping, run through the entry point.\<close>

lemma sony_raw_event_battery_examples:
  "map_option (battery_capacity \<circ> fst \<circ> snd)
     (sony_raw_event (zeroed_sc\<lparr>quirks := SIXAXIS_CONTROLLER_USB\<rparr>)
        ((replicate 77 0)[0 := 1, 30 := 0xEE]) 49) = Some 100"
  "map_option (battery_status \<circ> fst \<circ> snd)
     (sony_raw_event (zeroed_sc\<lparr>quirks := SIXAXIS_CONTROLLER_USB\<rparr>)
        ((replicate 77 0)[0 := 1, 30 := 0xEE]) 49) = Some POWER_SUPPLY_STATUS_CHARGING"
  "map_option (battery_status \<circ> fst \<circ> snd)
     (sony_raw_event (zeroed_sc\<lparr>quirks := SIXAXIS_CONTROLLER_USB\<rparr>)
        ((replicate 77 0)[0 := 1, 30 := 0xEF]) 49) = Some POWER_SUPPLY_STATUS_FULL"
  "map_option (battery_capacity \<circ> fst \<circ> snd)
     (sony_raw_event (zeroed_sc\<lparr>quirks := SIXAXIS_CONTROLLER_USB\<rparr>)
        ((replicate 77 0)[0 := 1, 30 := 3]) 49) = Some 50"
  by code_simp+

section \<open>Releasing the device id\<close>

text \<open>
  Claim C10. Releasing the device id is idempotent. When the stored id is negative, or
  is an id in use, \<open>sony_release_device_id\<close> returns; an id of at least 0 is freed and
  the stored id becomes -1, a negative id leaves everything as it is; and a second call
  on the result changes nothing and frees nothing (a second \<open>ida_free\<close> of the same id
  would be the allocator's error).
\<close>

theorem sony_release_device_id_idempotent:
  assumes "device_id sc < 0 \<or> nat (device_id sc) \<in> ida"
  shows "\<exists>sc' ida'. sony_release_device_id sc ida = Some (sc', ida') \<and>
           (0 \<le> device_id sc \<longrightarrow>
              sc' = sc\<lparr>device_id := - 1\<rparr> \<and> ida' = ida - {nat (device_id sc)}) \<and>
           (device_id sc < 0 \<longrightarrow> sc' = sc \<and> ida' = ida) \<and>
           sony_release_device_id sc' ida' = Some (sc', ida')"
  using assms by (auto simp: sony_release_device_id_def ida_free_def)

theorem sony_release_device_id_idempotent_witness:
  "nat (device_id (zeroed_sc\<lparr>device_id := 3\<rparr>)) \<in> {0, 3, 5} \<and>
   sony_release_device_id (zeroed_sc\<lparr>device_id := 3\<rparr>) {0, 3, 5} =
     Some (zeroed_sc\<lparr>device_id := - 1\<rparr>, {0, 3, 5} - {3}) \<and>
   sony_release_device_id (zeroed_sc\<lparr>device_id := - 1\<rparr>) ({0, 3, 5} - {3}) =
     Some (zeroed_sc\<lparr>device_id := - 1\<rparr>, {0, 3, 5} - {3})"
  using sony_release_device_id_idempotent [of "zeroed_sc\<lparr>device_id := 3\<rparr>" "{0, 3, 5}"]
  by (simp add: sony_release_device_id_def ida_free_def)

section \<open>Registering a device in the list\<close>

lemma sony_check_add_dev_list_walk_no_match:
  "\<forall>e \<in> set devs. mac_address e \<noteq> mac_address sc \<Longrightarrow>
     sony_check_add_dev_list_walk sc devs = None"
  by (induction devs) auto

lemma sony_compare_connection_type_iff:
  "(sony_compare_connection_type sc0 sc1 \<noteq> 0) =
     ((quirks sc0 AND SONY_BT_DEVICE \<noteq> 0) = (quirks sc1 AND SONY_BT_DEVICE \<noteq> 0))"
  by (auto simp: sony_compare_connection_type_def Let_def)

lemma sony_check_add_dev_list_walk_skip:
  "\<forall>e \<in> set xs. mac_address e \<noteq> mac_address sc \<Longrightarrow>
     sony_check_add_dev_list_walk sc (xs @ ys) = sony_check_add_dev_list_walk sc ys"
  by (induction xs) auto

text \<open>
  Claim C1, as the code has it. A registration whose address matches no entry of the
  list is inserted at the head and returns 0. A later registration with the same
  address, wherever the first one stands in the list by then (after any entries with
  other addresses that were put in front of it), is never inserted: it returns 1 (the
  duplicate flag) when both connections have the same is-Bluetooth classification, and
  \<open>-EEXIST\<close> when the classifications differ.
\<close>

theorem sony_check_add_dev_list_same_address:
  assumes "mac_address b = mac_address a"
    and "\<forall>e \<in> set devs. mac_address e \<noteq> mac_address a"
    and "\<forall>e \<in> set xs. mac_address e \<noteq> mac_address a"
  shows "sony_check_add_dev_list a devs = (0, a # devs) \<and>
         sony_check_add_dev_list b (xs @ a # ys) =
           (if (quirks a AND SONY_BT_DEVICE \<noteq> 0) = (quirks b AND SONY_BT_DEVICE \<noteq> 0)
            then 1 else - EEXIST, xs @ a # ys)"
proof
  show "sony_check_add_dev_list a devs = (0, a # devs)"
    using assms(2) sony_check_add_dev_list_walk_no_match [of devs a]
    by (simp add: sony_check_add_dev_list_def)
next
  have "sony_check_add_dev_list_walk b (xs @ a # ys) =
      sony_check_add_dev_list_walk b (a # ys)"
    using assms(1,3) by (intro sony_check_add_dev_list_walk_skip) simp
  then show "sony_check_add_dev_list b (xs @ a # ys) =
           (if (quirks a AND SONY_BT_DEVICE \<noteq> 0) = (quirks b AND SONY_BT_DEVICE \<noteq> 0)
            then 1 else - EEXIST, xs @ a # ys)"
    using assms(1)
    by (auto simp: sony_check_add_dev_list_def sony_compare_connection_type_iff)
qed

text \<open>
  The registrations A (USB), then C with another address, then B (Bluetooth) with the
  address of A, on a list that holds one device: A and C are inserted, B is refused and
  the list stays as it was.
\<close>

theorem sony_check_add_dev_list_same_address_witness:
  "mac_address (zeroed_sc\<lparr>quirks := SIXAXIS_CONTROLLER_BT, mac_address := [1, 2, 3, 4, 5, 6]\<rparr>) =
     mac_address (zeroed_sc\<lparr>quirks := SIXAXIS_CONTROLLER_USB, mac_address := [1, 2, 3, 4, 5, 6]\<rparr>) \<and>
   mac_address zeroed_sc \<noteq> [1, 2, 3, 4, 5, 6] \<and>
   mac_address (zeroed_sc\<lparr>mac_address := [9, 9, 9, 9, 9, 9]\<rparr>) \<noteq> [1, 2, 3, 4, 5, 6] \<and>
   sony_check_add_dev_list
     (zeroed_sc\<lparr>quirks := SIXAXIS_CONTROLLER_USB, mac_address := [1, 2, 3, 4, 5, 6]\<rparr>)
     [zeroed_sc] =
     (0, [zeroed_sc\<lparr>quirks := SIXAXIS_CONTROLLER_USB, mac_address := [1, 2, 3, 4, 5, 6]\<rparr>,
          zeroed_sc]) \<and>
   sony_check_add_dev_list
     (zeroed_sc\<lparr>quirks := SIXAXIS_CONTROLLER_BT, mac_address := [1, 2, 3, 4, 5, 6]\<rparr>)
     [zeroed_sc\<lparr>mac_address := [9, 9, 9, 9, 9, 9]\<rparr>,
      zeroed_sc\<lparr>quirks := SIXAXIS_CONTROLLER_USB, mac_address := [1, 2, 3, 4, 5, 6]\<rparr>,
      zeroed_sc] =
     (- 17, [zeroed_sc\<lparr>mac_address := [9, 9, 9, 9, 9, 9]\<rparr>,
             zeroed_sc\<lparr>quirks := SIXAXIS_CONTROLLER_USB, mac_address := [1, 2, 3, 4, 5, 6]\<rparr>,
             zeroed_sc])"
  using sony_check_add_dev_list_same_address
    [of "zeroed_sc\<lparr>quirks := SIXAXIS_CONTROLLER_BT, mac_address := [1, 2, 3, 4, 5, 6]\<rparr>"
        "zeroed_sc\<lparr>quirks := SIXAXIS_CONTROLLER_USB, mac_address := [1, 2, 3, 4, 5, 6]\<rparr>"
        "[zeroed_sc]"
        "[zeroed_sc\<lparr>mac_address := [9, 9, 9, 9, 9, 9]\<rparr>]"
        "[zeroed_sc]"]
  by (simp add: zeroed_sc_def SIXAXIS_CONTROLLER_BT_def SIXAXIS_CONTROLLER_USB_def
      SONY_BT_DEVICE_def BIT_def EEXIST_def)

text \<open>
  The claim as it was stated fails: of two USB connections with one address the second
  is accepted with result 1, and a Bluetooth connection after a USB connection with the
  same address is refused with \<open>-EEXIST\<close> (17).
\<close>

theorem sony_check_add_dev_list_counterexample:
  "fst (sony_check_add_dev_list (zeroed_sc\<lparr>quirks := SIXAXIS_CONTROLLER_USB\<rparr>)
     (snd (sony_check_add_dev_list (zeroed_sc\<lparr>quirks := SIXAXIS_CONTROLLER_USB\<rparr>) []))) = 1 \<and>
   fst (sony_check_add_dev_list (zeroed_sc\<lparr>quirks := SIXAXIS_CONTROLLER_BT\<rparr>)
     (snd (sony_check_add_dev_list (zeroed_sc\<lparr>quirks := SIXAXIS_CONTROLLER_USB\<rparr>) []))) = - 17"
  by code_simp

section \<open>The output report\<close>

lemma sixaxis_led_delays_bitmap: "leds_bitmap (sixaxis_led_delays ns sc r) = leds_bitmap r"
  by (induction ns arbitrary: r) simp_all

lemma sixaxis_led_delays_report_id: "report_id (sixaxis_led_delays ns sc r) = report_id r"
  by (induction ns arbitrary: r) simp_all

text \<open>
  The invariant of the delay loop for one slot: slot \<open>3 - n\<close> is written once, in the
  turn of LED \<open>n\<close>, and by no other turn.
\<close>

lemma sixaxis_led_delays_slot:
  assumes "n < 4" and "distinct ns" and "\<forall>m \<in> set ns. m < 4" and "length (led r) = 4"
  shows "led (sixaxis_led_delays ns sc r) ! (3 - n) =
     (if n \<in> set ns \<and> (led_delay_on sc ! n \<noteq> 0 \<or> led_delay_off sc ! n \<noteq> 0)
      then (led r ! (3 - n))\<lparr>duty_off := led_delay_off sc ! n, duty_on := led_delay_on sc ! n\<rparr>
      else led r ! (3 - n))"
  using assms
proof (induction ns arbitrary: r)
  case Nil
  then show ?case by simp
next
  case (Cons m ns)
  have m: "m < 4" using Cons.prems by simp
  have d: "distinct ns" "\<forall>k \<in> set ns. k < 4" "m \<notin> set ns" using Cons.prems by simp_all
  let ?r = "(if led_delay_on sc ! m \<noteq> 0 \<or> led_delay_off sc ! m \<noteq> 0
        then r\<lparr>led := (led r)[3 - m :=
               (led r ! (3 - m))\<lparr>duty_off := led_delay_off sc ! m,
                                        duty_on := led_delay_on sc ! m\<rparr>]\<rparr>
        else r)"
  have len: "length (led ?r) = 4" using Cons.prems by simp
  have step: "sixaxis_led_delays (m # ns) sc r = sixaxis_led_delays ns sc ?r" by simp
  note ih = Cons.IH [OF \<open>n < 4\<close> d(1) d(2) len]
  show ?case
  proof (cases "m = n")
    case True
    then have "n \<notin> set ns" using d by simp
    then show ?thesis unfolding step ih using True Cons.prems(4) \<open>n < 4\<close> by simp
  next
    case False
    then have "3 - m \<noteq> 3 - n" using m \<open>n < 4\<close> by arith
    then show ?thesis unfolding step ih using False by auto
  qed
qed

text \<open>The function in one piece: the report before the delay loop, the loop, the send.\<close>

lemma sixaxis_send_output_report_unfold:
  "sixaxis_send_output_report sc =
     sc\<lparr>output_report_dmabuf := sixaxis_led_delays [0, 1, 2, 3] sc
           (default_report\<lparr>rumble := (rumble default_report)
                     \<lparr>right_motor_on := (if right sc \<noteq> 0 then 1 else 0),
                      left_motor_force := left sc\<rparr>,
              leds_bitmap :=
                (let b = push_bit 1 (led_state sc ! 0) OR push_bit 2 (led_state sc ! 1) OR
                         push_bit 3 (led_state sc ! 2) OR push_bit 4 (led_state sc ! 3)
                 in if b AND 0x1E = 0 then b OR 0x20 else b)\<rparr>),
        hdev := hdev sc @ [RAW_REQUEST 0x01 (sixaxis_led_delays [0, 1, 2, 3] sc
           (default_report\<lparr>rumble := (rumble default_report)
                     \<lparr>right_motor_on := (if right sc \<noteq> 0 then 1 else 0),
                      left_motor_force := left sc\<rparr>,
              leds_bitmap :=
                (let b = push_bit 1 (led_state sc ! 0) OR push_bit 2 (led_state sc ! 1) OR
                         push_bit 3 (led_state sc ! 2) OR push_bit 4 (led_state sc ! 3)
                 in if b AND 0x1E = 0 then b OR 0x20 else b)\<rparr>))]\<rparr>"
  unfolding sixaxis_send_output_report_def Let_def
  by (simp add: default_report_def sixaxis_led_delays_report_id or.assoc
      del: sixaxis_led_delays.simps)

lemma sixaxis_send_output_report_sends:
  "hdev (sixaxis_send_output_report sc) =
     hdev sc @ [RAW_REQUEST 0x01 (output_report_dmabuf (sixaxis_send_output_report sc))]"
  unfolding sixaxis_send_output_report_unfold by simp

lemma sixaxis_send_output_report_bitmap:
  "leds_bitmap (output_report_dmabuf (sixaxis_send_output_report sc)) =
     (let b = push_bit 1 (led_state sc ! 0) OR push_bit 2 (led_state sc ! 1) OR
              push_bit 3 (led_state sc ! 2) OR push_bit 4 (led_state sc ! 3)
      in if b AND 0x1E = 0 then b OR 0x20 else b)"
  unfolding sixaxis_send_output_report_unfold
  by (simp add: sixaxis_led_delays_bitmap del: sixaxis_led_delays.simps)

text \<open>
  Claim C9. For every device state and every LED \<open>n\<close> below 4, the report that
  \<open>sixaxis_send_output_report\<close> builds holds the blink timing of LED \<open>n\<close> in slot
  \<open>3 - n\<close> (LED 0 in the last slot): when one of the two delays of the LED is not
  zero, the slot is the default slot with \<open>duty_off\<close> and \<open>duty_on\<close> replaced by the
  delays; when both are zero the slot is the default slot, untouched.
\<close>

theorem sixaxis_send_output_report_timing:
  assumes "n < 4"
  shows "led (output_report_dmabuf (sixaxis_send_output_report sc)) ! (3 - n) =
     (if led_delay_on sc ! n \<noteq> 0 \<or> led_delay_off sc ! n \<noteq> 0
      then default_led\<lparr>duty_off := led_delay_off sc ! n, duty_on := led_delay_on sc ! n\<rparr>
      else default_led)"
proof -
  let ?r = "default_report\<lparr>rumble := (rumble default_report)
                     \<lparr>right_motor_on := (if right sc \<noteq> 0 then 1 else 0),
                      left_motor_force := left sc\<rparr>,
              leds_bitmap :=
                (let b = push_bit 1 (led_state sc ! 0) OR push_bit 2 (led_state sc ! 1) OR
                         push_bit 3 (led_state sc ! 2) OR push_bit 4 (led_state sc ! 3)
                 in if b AND 0x1E = 0 then b OR 0x20 else b)\<rparr>"
  have l: "led ?r = [default_led, default_led, default_led, default_led]"
    by (simp add: default_report_def)
  have len: "length (led ?r) = 4" by (simp add: default_report_def)
  have slot: "led ?r ! (3 - n) = default_led"
    using assms unfolding l by (cases "3 - n") (auto simp: nth_Cons split: nat.splits)
  have mem: "n \<in> set [0, 1, 2, 3]" using assms by auto
  have "led (sixaxis_led_delays [0, 1, 2, 3] sc ?r) ! (3 - n) =
     (if n \<in> set [0, 1, 2, 3] \<and> (led_delay_on sc ! n \<noteq> 0 \<or> led_delay_off sc ! n \<noteq> 0)
      then (led ?r ! (3 - n))\<lparr>duty_off := led_delay_off sc ! n, duty_on := led_delay_on sc ! n\<rparr>
      else led ?r ! (3 - n))"
    by (rule sixaxis_led_delays_slot [OF assms _ _ len]) simp_all
  then show ?thesis
    unfolding sixaxis_send_output_report_unfold slot using mem by simp
qed

theorem sixaxis_send_output_report_timing_witness:
  "(0::nat) < 4 \<and> (1::nat) < 4 \<and>
   led (output_report_dmabuf (sixaxis_send_output_report
     (zeroed_sc\<lparr>led_delay_on := [5, 0, 0, 0], led_delay_off := [7, 0, 0, 0]\<rparr>))) ! 3 =
     \<lparr>time_enabled = 0xff, duty_length = 0x27, enabled = 0x10, duty_off = 7, duty_on = 5\<rparr> \<and>
   led (output_report_dmabuf (sixaxis_send_output_report
     (zeroed_sc\<lparr>led_delay_on := [5, 0, 0, 0], led_delay_off := [7, 0, 0, 0]\<rparr>))) ! 2 =
     \<lparr>time_enabled = 0xff, duty_length = 0x27, enabled = 0x10, duty_off = 0, duty_on = 0x32\<rparr>"
  using
    sixaxis_send_output_report_timing
      [of 0 "zeroed_sc\<lparr>led_delay_on := [5, 0, 0, 0], led_delay_off := [7, 0, 0, 0]\<rparr>"]
    sixaxis_send_output_report_timing
      [of 1 "zeroed_sc\<lparr>led_delay_on := [5, 0, 0, 0], led_delay_off := [7, 0, 0, 0]\<rparr>"]
  by (simp add: default_led_def)

lemma leds_bitmap_bits:
  assumes "a = 0 \<or> a = (1::u8)" "b = 0 \<or> b = (1::u8)" "c = 0 \<or> c = (1::u8)" "d = 0 \<or> d = (1::u8)"
  defines "m \<equiv> (let b = push_bit 1 a OR push_bit 2 b OR push_bit 3 c OR push_bit 4 d
      in if b AND 0x1E = 0 then b OR 0x20 else b)"
  shows "bit m 1 = (a = 1)" "bit m 2 = (b = 1)" "bit m 3 = (c = 1)" "bit m 4 = (d = 1)"
    "bit m 5 = (a = 0 \<and> b = 0 \<and> c = 0 \<and> d = 0)"
  using assms(1-4) unfolding m_def by (auto simp: bit_numeral_simps)

text \<open>
  The LED states are 0 or 1 in every state the driver reaches: the structure starts
  zeroed, \<open>sixaxis_set_leds_from_id\<close> copies a row of its table of zeros and ones, and
  \<open>sony_led_set_brightness\<close> stores a brightness of an LED that \<open>sony_leds_init\<close>
  registers with the maximal brightness 1. Nothing else writes them.
\<close>

lemma zeroed_sc_led_state: "\<forall>n<4. led_state zeroed_sc ! n \<le> 1"
  by (simp add: all_less_4 zeroed_sc_def)

lemma sixaxis_set_leds_from_id_led_state:
  assumes "\<forall>n<4. led_state sc ! n \<le> 1"
  shows "\<forall>n<4. led_state (sixaxis_set_leds_from_id sc) ! n \<le> 1"
proof (cases "device_id sc < 0")
  case True
  then show ?thesis using assms by (simp add: sixaxis_set_leds_from_id_def)
next
  case False
  have rows: "list_all (\<lambda>row. length row = 4 \<and> list_all (\<lambda>v. v \<le> 1) row) sixaxis_leds"
    by (simp add: sixaxis_leds_def)
  have "nat (device_id sc mod 10) < length sixaxis_leds"
    using False by (simp add: sixaxis_leds_def nat_less_iff)
  then have "length (sixaxis_leds ! nat (device_id sc mod 10)) = 4 \<and>
      list_all (\<lambda>v. v \<le> 1) (sixaxis_leds ! nat (device_id sc mod 10))"
    using rows by (simp add: list_all_length)
  then have "\<forall>n<4. sixaxis_leds ! nat (device_id sc mod 10) ! n \<le> 1"
    by (simp add: list_all_length)
  then show ?thesis using False by (simp add: sixaxis_set_leds_from_id_def Let_def)
qed

lemma sony_led_set_brightness_led_state:
  assumes "val \<le> 1" and "\<forall>n<4. led_state drv_data ! n \<le> 1"
  shows "\<forall>n<4. led_state (sony_led_set_brightness drv_data led_dev val) ! n \<le> 1"
proof -
  have "val = 0 \<or> val = 1" using assms(1) by (auto simp: order_le_less)
  then have u: "(ucast val :: u8) \<le> 1" by auto
  have upd: "\<forall>n<4. (led_state drv_data)[k := ucast val] ! n \<le> 1" for k
    using assms(2) u
    by (cases "k < length (led_state drv_data)") (simp_all add: nth_list_update list_update_beyond)
  have "\<forall>n<4. led_state (sony_led_set_brightness_loop ns drv_data led_dev val force_update) ! n
      \<le> 1" for ns force_update
    using assms(2) upd by (induction ns) (simp_all add: sony_set_leds_def buzz_set_leds_def)
  then show ?thesis by (simp add: sony_led_set_brightness_def)
qed

text \<open>
  Claim C8. For every device state with LED values 0 or 1, which are the states the
  driver reaches, bit \<open>n + 1\<close> of the LED bitmap of the encoded report is set exactly
  when LED \<open>n\<close> is on (LED 0 at bit 1, up to LED 3 at bit 4), and the sentinel bit 5
  is set exactly when all four LEDs are off. And for every device state at all, the
  sentinel bit is set whenever the bits 1 to 4 of the bitmap are all zero.
\<close>

theorem sixaxis_send_output_report_leds_bitmap:
  "(leds_bitmap (output_report_dmabuf (sixaxis_send_output_report sc)) AND 0x1E = 0 \<longrightarrow>
      bit (leds_bitmap (output_report_dmabuf (sixaxis_send_output_report sc))) 5) \<and>
   ((\<forall>n<4. led_state sc ! n \<le> 1) \<longrightarrow>
      (\<forall>n<4. bit (leds_bitmap (output_report_dmabuf (sixaxis_send_output_report sc))) (n + 1)
          = (led_state sc ! n = 1)) \<and>
      (bit (leds_bitmap (output_report_dmabuf (sixaxis_send_output_report sc))) 5
          = (\<forall>n<4. led_state sc ! n = 0)))"
proof (intro conjI impI)
  show "bit (leds_bitmap (output_report_dmabuf (sixaxis_send_output_report sc))) 5"
    if "leds_bitmap (output_report_dmabuf (sixaxis_send_output_report sc)) AND 0x1E = 0"
    using that unfolding sixaxis_send_output_report_bitmap Let_def
    by (simp add: bit_or_iff bit_numeral_simps split: if_splits) 
next
  assume a: "\<forall>n<4. led_state sc ! n \<le> 1"
  have v: "led_state sc ! 0 = 0 \<or> led_state sc ! 0 = 1" "led_state sc ! 1 = 0 \<or> led_state sc ! 1 = 1"
    "led_state sc ! 2 = 0 \<or> led_state sc ! 2 = 1" "led_state sc ! 3 = 0 \<or> led_state sc ! 3 = 1"
    using a by (simp_all add: u8_le_1_cases)
  note bits = leds_bitmap_bits [OF v, folded sixaxis_send_output_report_bitmap]
  show "\<forall>n<4. bit (leds_bitmap (output_report_dmabuf (sixaxis_send_output_report sc))) (n + 1)
          = (led_state sc ! n = 1)"
    unfolding all_less_4 using bits(1-4) by (simp add: eval_nat_numeral)
  show "bit (leds_bitmap (output_report_dmabuf (sixaxis_send_output_report sc))) 5
          = (\<forall>n<4. led_state sc ! n = 0)"
    unfolding all_less_4 using bits(5) by simp
qed

theorem sixaxis_send_output_report_leds_bitmap_witness:
  "leds_bitmap (output_report_dmabuf (sixaxis_send_output_report zeroed_sc)) AND 0x1E = 0 \<and>
   bit (leds_bitmap (output_report_dmabuf (sixaxis_send_output_report zeroed_sc))) 5 \<and>
   bit (leds_bitmap (output_report_dmabuf (sixaxis_send_output_report
     (zeroed_sc\<lparr>led_state := [1, 0, 1, 0]\<rparr>)))) 1 \<and>
   \<not> bit (leds_bitmap (output_report_dmabuf (sixaxis_send_output_report
     (zeroed_sc\<lparr>led_state := [1, 0, 1, 0]\<rparr>)))) 2 \<and>
   bit (leds_bitmap (output_report_dmabuf (sixaxis_send_output_report
     (zeroed_sc\<lparr>led_state := [1, 0, 1, 0]\<rparr>)))) 3 \<and>
   \<not> bit (leds_bitmap (output_report_dmabuf (sixaxis_send_output_report
     (zeroed_sc\<lparr>led_state := [1, 0, 1, 0]\<rparr>)))) 4 \<and>
   \<not> bit (leds_bitmap (output_report_dmabuf (sixaxis_send_output_report
     (zeroed_sc\<lparr>led_state := [1, 0, 1, 0]\<rparr>)))) 5"
proof -
  let ?s = "zeroed_sc\<lparr>led_state := [1, 0, 1, 0]\<rparr>"
  let ?b = "leds_bitmap (output_report_dmabuf (sixaxis_send_output_report ?s))"
  have z: "leds_bitmap (output_report_dmabuf (sixaxis_send_output_report zeroed_sc)) AND 0x1E = 0"
    by (simp add: sixaxis_send_output_report_bitmap zeroed_sc_def)
  have z5: "bit (leds_bitmap (output_report_dmabuf (sixaxis_send_output_report zeroed_sc))) 5"
    using sixaxis_send_output_report_leds_bitmap [of zeroed_sc] z by blast
  have h: "\<forall>n<4. led_state ?s ! n \<le> 1"
    by (simp add: all_less_4)
  have f: "\<forall>n<4. bit ?b (n + 1) = (led_state ?s ! n = 1)"
    and g: "bit ?b 5 = (\<forall>n<4. led_state ?s ! n = 0)"
    using sixaxis_send_output_report_leds_bitmap [of ?s] h by blast+
  have "bit ?b 1" using f [rule_format, of 0] by simp
  moreover have "\<not> bit ?b 2" using f [rule_format, of 1] by (simp add: numeral_2_eq_2)
  moreover have "bit ?b 3" using f [rule_format, of 2] by simp
  moreover have "\<not> bit ?b 4" using f [rule_format, of 3] by simp
  moreover have "\<not> bit ?b 5" using g by (simp add: all_less_4)
  ultimately show ?thesis using z z5 by blast
qed

section \<open>Decoding through the entry point\<close>

lemma u8_pair_value:
  "push_bit 8 (uint (hi::u8)) OR uint (lo::u8) = 256 * uint hi + uint lo"
proof -
  have "push_bit 8 (uint hi) + uint lo = push_bit 8 (uint hi) OR uint lo"
    by (rule disjunctive_add) (auto simp: bit_push_bit_iff bit_uint_iff dest: bit_imp_le_length)
  then show ?thesis by (simp add: push_bit_eq_mult)
qed

lemma u8_pair_range:
  "0 \<le> 256 * uint (hi::u8) + uint (lo::u8)" "256 * uint (hi::u8) + uint (lo::u8) \<le> 65535"
proof -
  have "uint hi < 256" "uint lo < 256" using uint_lt2p [of hi] uint_lt2p [of lo] by simp_all
  then show "256 * uint hi + uint lo \<le> 65535" by arith
  show "0 \<le> 256 * uint hi + uint lo" by simp
qed

lemma sixaxis_parse_report_sixaxis:
  assumes "quirks sc AND SIXAXIS_CONTROLLER \<noteq> 0" and "77 \<le> length rd"
  shows "sixaxis_parse_report sc rd sz =
    Some (sc\<lparr>battery_capacity :=
             (if rd ! 30 \<ge> 0xee then 100
              else sixaxis_battery_capacity ! unat (if rd ! 30 \<le> 5 then rd ! 30 else 5)),
           battery_status :=
             (if rd ! 30 \<ge> 0xee
              then (if rd ! 30 AND 0x01 \<noteq> 0 then POWER_SUPPLY_STATUS_FULL
                    else POWER_SUPPLY_STATUS_CHARGING)
              else POWER_SUPPLY_STATUS_DISCHARGING),
           sensor_dev := sensor_dev sc @
             [INPUT_ABS ABS_X (256 * uint (rd ! 42) + uint (rd ! 41) - 511),
              INPUT_ABS ABS_Y (511 - (256 * uint (rd ! 76) + uint (rd ! 45))),
              INPUT_ABS ABS_Z (511 - (256 * uint (rd ! 44) + uint (rd ! 43))),
              INPUT_SYNC]\<rparr>)"
  using assms
  by (simp add: sixaxis_parse_report_def rd_at_def SIXAXIS_INPUT_REPORT_ACC_X_OFFSET_def Let_def
      input_report_abs_def input_sync_def u8_pair_value)


lemma sixaxis_battery_capacity_member:
  "sixaxis_battery_capacity ! unat (if (w::u8) \<le> 5 then w else 5) \<in> {0, 1, 25, 50, 75, 100}"
proof -
  have "min (unat w) 5 < length sixaxis_battery_capacity"
    by (simp add: sixaxis_battery_capacity_def)
  then have "sixaxis_battery_capacity ! min (unat w) 5 \<in> set sixaxis_battery_capacity"
    by (rule nth_mem)
  then show ?thesis
    unfolding clamped_index by (simp add: sixaxis_battery_capacity_def)
qed

lemma sony_raw_event_finish_eq:
  "sony_raw_event_finish sc rd =
     (0, sc\<lparr>defer_initialization := 0,
            state_worker := state_worker sc \<or>
              (defer_initialization sc \<noteq> 0 \<and> state_worker_initialized sc \<noteq> 0)\<rparr>, rd)"
  by (cases "defer_initialization sc = 0"; cases "state_worker_initialized sc = 0")
     (simp_all add: sony_raw_event_finish_def schedule_work_def)

lemma sony_raw_event_accepted:
  assumes "quirks sc AND SIXAXIS_CONTROLLER \<noteq> 0" and "77 \<le> length rd"
    and "rd ! 0 = 1" and "rd ! 1 \<noteq> 0xff"
  shows "sony_raw_event sc rd 49 =
    Some (sony_raw_event_finish
      (sc\<lparr>battery_capacity :=
             (if rd ! 30 \<ge> 0xee then 100
              else sixaxis_battery_capacity ! unat (if rd ! 30 \<le> 5 then rd ! 30 else 5)),
           battery_status :=
             (if rd ! 30 \<ge> 0xee
              then (if rd ! 30 AND 0x01 \<noteq> 0 then POWER_SUPPLY_STATUS_FULL
                    else POWER_SUPPLY_STATUS_CHARGING)
              else POWER_SUPPLY_STATUS_DISCHARGING),
           sensor_dev := sensor_dev sc @
             [INPUT_ABS ABS_X (256 * uint (rd ! 41) + uint (rd ! 42) - 511),
              INPUT_ABS ABS_Y (511 - (256 * uint (rd ! 76) + uint (rd ! 46))),
              INPUT_ABS ABS_Z (511 - (256 * uint (rd ! 43) + uint (rd ! 44))),
              INPUT_SYNC]\<rparr>)
      (rd[41 := rd ! 42, 42 := rd ! 41, 43 := rd ! 44, 44 := rd ! 43,
          45 := rd ! 46, 46 := rd ! 45, 47 := rd ! 48, 48 := rd ! 47]))"
proof -
  have ne: "rd \<noteq> []" using assms(2) by auto
  show ?thesis
    using assms ne by (simp add: sony_raw_event_def rd_at_def swap_def sixaxis_parse_report_sixaxis)
qed


lemma sony_raw_event_spurious:
  assumes "quirks sc AND SIXAXIS_CONTROLLER \<noteq> 0" and "49 \<le> length rd"
    and "rd ! 0 = 1" and "rd ! 1 = 0xff"
  shows "sony_raw_event sc rd 49 = Some (- EINVAL, sc, rd)"
proof -
  have ne: "rd \<noteq> []" using assms(2) by auto
  show ?thesis
    using assms ne by (simp add: sony_raw_event_def rd_at_def)
qed

text \<open>
  Claim C3, as the code has it. For every accepted accelerometer report (a Sixaxis
  device, report id 0x01, size 49, byte 1 not 0xFF) in a buffer of at least 77 bytes,
  \<open>sony_raw_event\<close> returns 0, has exchanged in place the four byte pairs (41, 42),
  (43, 44), (45, 46) and (47, 48), and has reported X = raw - 511 with the raw value
  made of the report's bytes 41 (high) and 42 (low), Z = 511 - raw with the raw value
  made of bytes 43 (high) and 44 (low), and Y = 511 - raw for a raw value between 0 and
  65535 whose low byte is the report's byte 46.
\<close>

theorem sony_raw_event_accelerometer:
  assumes "quirks sc AND SIXAXIS_CONTROLLER \<noteq> 0" and "77 \<le> length rd"
    and "rd ! 0 = 1" and "rd ! 1 \<noteq> 0xff"
  shows "\<exists>sc' y. sony_raw_event sc rd 49 =
        Some (0, sc', rd[41 := rd ! 42, 42 := rd ! 41, 43 := rd ! 44, 44 := rd ! 43,
                       45 := rd ! 46, 46 := rd ! 45, 47 := rd ! 48, 48 := rd ! 47]) \<and>
      sensor_dev sc' = sensor_dev sc @
        [INPUT_ABS ABS_X ((256 * uint (rd ! 41) + uint (rd ! 42)) - 511),
         INPUT_ABS ABS_Y (511 - y),
         INPUT_ABS ABS_Z (511 - (256 * uint (rd ! 43) + uint (rd ! 44))),
         INPUT_SYNC] \<and>
      0 \<le> y \<and> y \<le> 65535 \<and> y mod 256 = uint (rd ! 46)"
proof -
  obtain sc' where ev: "sony_raw_event sc rd 49 =
        Some (0, sc', rd[41 := rd ! 42, 42 := rd ! 41, 43 := rd ! 44, 44 := rd ! 43,
                       45 := rd ! 46, 46 := rd ! 45, 47 := rd ! 48, 48 := rd ! 47])"
    and sd: "sensor_dev sc' = sensor_dev sc @
        [INPUT_ABS ABS_X ((256 * uint (rd ! 41) + uint (rd ! 42)) - 511),
         INPUT_ABS ABS_Y (511 - (256 * uint (rd ! 76) + uint (rd ! 46))),
         INPUT_ABS ABS_Z (511 - (256 * uint (rd ! 43) + uint (rd ! 44))),
         INPUT_SYNC]"
    unfolding sony_raw_event_accepted [OF assms] sony_raw_event_finish_eq by simp
  have "(256 * uint (rd ! 76) + uint (rd ! 46)) mod 256 = uint (rd ! 46)"
    using uint_lt2p [of "rd ! 46"] by simp
  then show ?thesis
    using ev sd u8_pair_range [of "rd ! 76" "rd ! 46"] by blast
qed

theorem sony_raw_event_accelerometer_witness:
  "quirks (zeroed_sc\<lparr>quirks := SIXAXIS_CONTROLLER_USB\<rparr>) AND SIXAXIS_CONTROLLER \<noteq> 0 \<and>
   77 \<le> length ((replicate 77 0)
     [0 := 1, 41 := 1, 42 := 2, 43 := 3, 44 := 4, 45 := 5, 46 := 6, 47 := 7, 48 := 8 :: u8]) \<and>
   (\<exists>sc' y. sony_raw_event (zeroed_sc\<lparr>quirks := SIXAXIS_CONTROLLER_USB\<rparr>)
       ((replicate 77 0)
         [0 := 1, 41 := 1, 42 := 2, 43 := 3, 44 := 4, 45 := 5, 46 := 6, 47 := 7, 48 := 8]) 49 =
     Some (0, sc', (replicate 77 0)
         [0 := 1, 41 := 1, 42 := 2, 43 := 3, 44 := 4, 45 := 5, 46 := 6, 47 := 7, 48 := 8,
          41 := 2, 42 := 1, 43 := 4, 44 := 3, 45 := 6, 46 := 5, 47 := 8, 48 := 7]) \<and>
     sensor_dev sc' =
       [INPUT_ABS ABS_X (- 253), INPUT_ABS ABS_Y (511 - y), INPUT_ABS ABS_Z (- 261), INPUT_SYNC] \<and>
     0 \<le> y \<and> y \<le> 65535 \<and> y mod 256 = 6)"
proof -
  let ?sc = "zeroed_sc\<lparr>quirks := SIXAXIS_CONTROLLER_USB\<rparr>"
  let ?rd = "(replicate 77 0)
     [0 := 1, 41 := 1, 42 := 2, 43 := 3, 44 := 4, 45 := 5, 46 := 6, 47 := 7, 48 := 8 :: u8]"
  have q: "quirks ?sc AND SIXAXIS_CONTROLLER \<noteq> 0"
    by (simp add: SIXAXIS_CONTROLLER_def SIXAXIS_CONTROLLER_USB_def SIXAXIS_CONTROLLER_BT_def
        BIT_def)
  have len: "77 \<le> length ?rd" by simp
  have r0: "?rd ! 0 = 1" by simp
  have r1: "?rd ! 1 \<noteq> 0xff" by simp
  have v: "?rd ! 41 = 1" "?rd ! 42 = 2" "?rd ! 43 = 3" "?rd ! 44 = 4" "?rd ! 45 = 5"
    "?rd ! 46 = 6" "?rd ! 47 = 7" "?rd ! 48 = 8"
    by simp_all
  have s: "sensor_dev ?sc = []" by (simp add: zeroed_sc_def)
  show ?thesis
    using sony_raw_event_accelerometer [OF q len r0 r1, unfolded v s] q len
    by simp
qed

text \<open>
  The claim as it was stated fails on two counts. The entry point exchanges four byte
  pairs, not two: of the bytes 1 to 8 at the offsets 41 to 48 all eight have moved. And
  the high byte of Y is read at offset 76, which is not in the 49-byte report: with 9
  there Y is 511 - (9 * 256 + 6), and on a buffer of exactly 49 bytes the read leaves
  the buffer.
\<close>

theorem sony_raw_event_accelerometer_counterexample:
  "map_option (take 8 \<circ> drop 41 \<circ> snd \<circ> snd)
     (sony_raw_event (zeroed_sc\<lparr>quirks := SIXAXIS_CONTROLLER_USB\<rparr>)
       ((replicate 77 0)
         [0 := 1, 41 := 1, 42 := 2, 43 := 3, 44 := 4, 45 := 5, 46 := 6, 47 := 7, 48 := 8,
          76 := 9]) 49) =
     Some [2, 1, 4, 3, 6, 5, 8, 7] \<and>
   map_option (sensor_dev \<circ> fst \<circ> snd)
     (sony_raw_event (zeroed_sc\<lparr>quirks := SIXAXIS_CONTROLLER_USB\<rparr>)
       ((replicate 77 0)
         [0 := 1, 41 := 1, 42 := 2, 43 := 3, 44 := 4, 45 := 5, 46 := 6, 47 := 7, 48 := 8,
          76 := 9]) 49) =
     Some [INPUT_ABS ABS_X (- 253), INPUT_ABS ABS_Y (- 1799), INPUT_ABS ABS_Z (- 261),
           INPUT_SYNC] \<and>
   sony_raw_event (zeroed_sc\<lparr>quirks := SIXAXIS_CONTROLLER_USB\<rparr>)
     ((replicate 49 0)
       [0 := 1, 41 := 1, 42 := 2, 43 := 3, 44 := 4, 45 := 5, 46 := 6, 47 := 7, 48 := 8]) 49 =
     None"
  by code_simp

text \<open>
  Claim C4, as the code has it. For every accepted accelerometer report (a Sixaxis
  device, report id 0x01, size 49, byte 1 not 0xFF) in a buffer of at least 77 bytes,
  whatever its bytes are, decoding reports an X value between -511 and 65024, Y and Z
  values between -65024 and 511, and stores a battery capacity that is one of 0, 1, 25,
  50, 75 and 100.
\<close>

theorem sony_raw_event_ranges:
  assumes "quirks sc AND SIXAXIS_CONTROLLER \<noteq> 0" and "77 \<le> length rd"
    and "rd ! 0 = 1" and "rd ! 1 \<noteq> 0xff"
  shows "\<exists>sc' rd' x y z. sony_raw_event sc rd 49 = Some (0, sc', rd') \<and>
      sensor_dev sc' = sensor_dev sc @
        [INPUT_ABS ABS_X x, INPUT_ABS ABS_Y y, INPUT_ABS ABS_Z z, INPUT_SYNC] \<and>
      - 511 \<le> x \<and> x \<le> 65024 \<and> - 65024 \<le> y \<and> y \<le> 511 \<and> - 65024 \<le> z \<and> z \<le> 511 \<and>
      battery_capacity sc' \<in> {0, 1, 25, 50, 75, 100}"
proof -
  let ?x = "256 * uint (rd ! 41) + uint (rd ! 42) - 511"
  let ?y = "511 - (256 * uint (rd ! 76) + uint (rd ! 46))"
  let ?z = "511 - (256 * uint (rd ! 43) + uint (rd ! 44))"
  have cap: "(if rd ! 30 \<ge> 0xee then 100
              else sixaxis_battery_capacity ! unat (if rd ! 30 \<le> 5 then rd ! 30 else 5))
        \<in> {0, 1, 25, 50, 75, 100}"
    using sixaxis_battery_capacity_member [of "rd ! 30"] by (simp split: if_splits)
  obtain sc' rd' where ev: "sony_raw_event sc rd 49 = Some (0, sc', rd')"
    and sd: "sensor_dev sc' = sensor_dev sc @
        [INPUT_ABS ABS_X ?x, INPUT_ABS ABS_Y ?y, INPUT_ABS ABS_Z ?z, INPUT_SYNC]"
    and bc: "battery_capacity sc' = (if rd ! 30 \<ge> 0xee then 100
              else sixaxis_battery_capacity ! unat (if rd ! 30 \<le> 5 then rd ! 30 else 5))"
    unfolding sony_raw_event_accepted [OF assms] sony_raw_event_finish_eq by simp
  have x: "- 511 \<le> ?x" "?x \<le> 65024"
    using u8_pair_range [of "rd ! 41" "rd ! 42"] by linarith+
  have y: "- 65024 \<le> ?y" "?y \<le> 511"
    using u8_pair_range [of "rd ! 76" "rd ! 46"] by linarith+
  have z: "- 65024 \<le> ?z" "?z \<le> 511"
    using u8_pair_range [of "rd ! 43" "rd ! 44"] by linarith+
  show ?thesis
    using ev sd x y z cap unfolding bc [symmetric] by blast
qed

theorem sony_raw_event_ranges_witness:
  "quirks (zeroed_sc\<lparr>quirks := SIXAXIS_CONTROLLER_BT\<rparr>) AND SIXAXIS_CONTROLLER \<noteq> 0 \<and>
   77 \<le> length ((replicate 77 0)[0 := 1, 30 := 2, 41 := 2, 42 := 10 :: u8]) \<and>
   (\<exists>sc' rd' x y z.
      sony_raw_event (zeroed_sc\<lparr>quirks := SIXAXIS_CONTROLLER_BT\<rparr>)
        ((replicate 77 0)[0 := 1, 30 := 2, 41 := 2, 42 := 10]) 49 = Some (0, sc', rd') \<and>
      sensor_dev sc' =
        [INPUT_ABS ABS_X x, INPUT_ABS ABS_Y y, INPUT_ABS ABS_Z z, INPUT_SYNC] \<and>
      - 511 \<le> x \<and> x \<le> 65024 \<and> - 65024 \<le> y \<and> y \<le> 511 \<and> - 65024 \<le> z \<and> z \<le> 511 \<and>
      battery_capacity sc' \<in> {0, 1, 25, 50, 75, 100})"
proof -
  let ?sc = "zeroed_sc\<lparr>quirks := SIXAXIS_CONTROLLER_BT\<rparr>"
  let ?rd = "(replicate 77 0)[0 := 1, 30 := 2, 41 := 2, 42 := 10 :: u8]"
  have q: "quirks ?sc AND SIXAXIS_CONTROLLER \<noteq> 0"
    by (simp add: SIXAXIS_CONTROLLER_def SIXAXIS_CONTROLLER_USB_def SIXAXIS_CONTROLLER_BT_def
        BIT_def)
  have len: "77 \<le> length ?rd" by simp
  have r0: "?rd ! 0 = 1" by simp
  have r1: "?rd ! 1 \<noteq> 0xff" by simp
  have s: "sensor_dev ?sc = []" by (simp add: zeroed_sc_def)
  show ?thesis
    using sony_raw_event_ranges [OF q len r0 r1, unfolded s] q len
    by simp
qed

text \<open>
  The claim as it was stated fails: the raw values are 16 bits wide and nothing cuts
  them to 10 bits, so the bytes 0xFF, 0xFF at the offsets 41 and 42 give X = 65024. And
  a 49-byte frame with another report id than 0x01 is not decoded at all: no axis value
  is produced.
\<close>

theorem sony_raw_event_ranges_counterexample:
  "map_option (sensor_dev \<circ> fst \<circ> snd)
     (sony_raw_event (zeroed_sc\<lparr>quirks := SIXAXIS_CONTROLLER_USB\<rparr>)
       ((replicate 77 0)[0 := 1, 41 := 0xFF, 42 := 0xFF]) 49) =
     Some [INPUT_ABS ABS_X 65024, INPUT_ABS ABS_Y 511, INPUT_ABS ABS_Z 511, INPUT_SYNC] \<and>
   (511 :: int) < 65024 \<and>
   map_option (sensor_dev \<circ> fst \<circ> snd)
     (sony_raw_event (zeroed_sc\<lparr>quirks := SIXAXIS_CONTROLLER_USB\<rparr>)
       ((replicate 77 0)[0 := 2]) 49) = Some []"
  by code_simp

text \<open>
  Claim C5, as the code has it. For every frame of size 49 with report id 0x01 and byte
  1 equal to 0xFF that a Sixaxis device delivers, \<open>sony_raw_event\<close> returns
  \<open>-EINVAL\<close> and leaves the whole device state and the buffer as they were.
\<close>

theorem sony_raw_event_rejects_spurious:
  assumes "quirks sc AND SIXAXIS_CONTROLLER \<noteq> 0" and "49 \<le> length rd"
    and "rd ! 0 = 1" and "rd ! 1 = 0xff"
  shows "sony_raw_event sc rd 49 = Some (- EINVAL, sc, rd)"
  using assms by (rule sony_raw_event_spurious)

theorem sony_raw_event_rejects_spurious_witness:
  "quirks (zeroed_sc\<lparr>quirks := SIXAXIS_CONTROLLER_BT, defer_initialization := 1\<rparr>)
      AND SIXAXIS_CONTROLLER \<noteq> 0 \<and>
   49 \<le> length ((replicate 49 0)[0 := 1, 1 := 0xFF :: u8]) \<and>
   sony_raw_event (zeroed_sc\<lparr>quirks := SIXAXIS_CONTROLLER_BT, defer_initialization := 1\<rparr>)
     ((replicate 49 0)[0 := 1, 1 := 0xFF]) 49 =
     Some (- 22, zeroed_sc\<lparr>quirks := SIXAXIS_CONTROLLER_BT, defer_initialization := 1\<rparr>,
           (replicate 49 0)[0 := 1, 1 := 0xFF])"
proof -
  let ?sc = "zeroed_sc\<lparr>quirks := SIXAXIS_CONTROLLER_BT, defer_initialization := 1\<rparr>"
  let ?rd = "(replicate 49 0)[0 := 1, 1 := 0xFF :: u8]"
  have q: "quirks ?sc AND SIXAXIS_CONTROLLER \<noteq> 0"
    by (simp add: SIXAXIS_CONTROLLER_def SIXAXIS_CONTROLLER_USB_def SIXAXIS_CONTROLLER_BT_def
        BIT_def)
  have len: "49 \<le> length ?rd" by simp
  have r0: "?rd ! 0 = 1" by simp
  have r1: "?rd ! 1 = 0xff" by simp
  show ?thesis
    using sony_raw_event_rejects_spurious [OF q len r0 r1] q len
    by (simp add: EINVAL_def)
qed

text \<open>
  The claim as it was stated, for every 49-byte frame with byte 1 equal to 0xFF, fails
  outside that case: the guitar device of the driver's device table gets such a frame
  accepted with result 0, and on a Sixaxis a frame with another report id is accepted
  too, and with the latch set it clears the latch and schedules the state worker.
\<close>

theorem sony_raw_event_rejects_spurious_counterexample:
  "sony_raw_event (zeroed_sc\<lparr>quirks := GH_GUITAR_CONTROLLER\<rparr>)
     ((replicate 49 0)[0 := 1, 1 := 0xFF]) 49 =
     Some (0, zeroed_sc\<lparr>quirks := GH_GUITAR_CONTROLLER\<rparr>, (replicate 49 0)[0 := 1, 1 := 0xFF]) \<and>
   sony_raw_event
     (zeroed_sc\<lparr>quirks := SIXAXIS_CONTROLLER_USB, state_worker_initialized := 1,
                 defer_initialization := 1\<rparr>)
     ((replicate 49 0)[0 := 2, 1 := 0xFF]) 49 =
     Some (0,
       zeroed_sc\<lparr>quirks := SIXAXIS_CONTROLLER_USB, state_worker_initialized := 1,
                 defer_initialization := 0, state_worker := True\<rparr>,
       (replicate 49 0)[0 := 2, 1 := 0xFF])"
  by code_simp

lemma sony_raw_event_not_decoded:
  assumes "\<not> (quirks sc AND SIXAXIS_CONTROLLER \<noteq> 0 \<and> rd ! 0 = 1 \<and> sz = 49)"
    and "quirks sc AND SIXAXIS_CONTROLLER = 0 \<or> rd \<noteq> []"
  shows "sony_raw_event sc rd sz = Some (sony_raw_event_finish sc rd)"
  using assms by (auto simp: sony_raw_event_def rd_at_def)

lemma sixaxis_parse_report_keeps:
  assumes "sixaxis_parse_report sc rd sz = Some sc'"
  shows "defer_initialization sc' = defer_initialization sc \<and>
         state_worker_initialized sc' = state_worker_initialized sc \<and>
         state_worker sc' = state_worker sc \<and> hdev sc' = hdev sc"
  using assms
  by (auto simp: sixaxis_parse_report_def rd_at_def Let_def input_report_abs_def input_sync_def
      split: if_splits Option.bind_splits)

lemma sony_raw_event_returns:
  assumes "77 \<le> length rd"
  shows "sony_raw_event sc rd sz \<noteq> None"
proof (cases "quirks sc AND SIXAXIS_CONTROLLER \<noteq> 0 \<and> rd ! 0 = 1 \<and> sz = 49")
  case True
  show ?thesis
  proof (cases "rd ! 1 = 0xff")
    case True
    with \<open>_ \<and> _ \<and> _\<close> assms show ?thesis by (simp add: sony_raw_event_spurious)
  next
    case False
    with \<open>_ \<and> _ \<and> _\<close> assms show ?thesis by (simp add: sony_raw_event_accepted)
  qed
next
  case False
  moreover have "rd \<noteq> []" using assms by auto
  ultimately show ?thesis by (simp add: sony_raw_event_not_decoded)
qed

lemma sixaxis_send_output_report_keeps:
  "state_worker (sixaxis_send_output_report sc) = state_worker sc"
  "send_output_report (sixaxis_send_output_report sc) = send_output_report sc"
  unfolding sixaxis_send_output_report_unfold by simp_all

lemma process_one_work_flushes_once:
  assumes "state_worker sc" and "send_output_report sc = Some SIXAXIS_SEND_OUTPUT_REPORT"
  shows "\<exists>sc'. process_one_work sc = Some sc' \<and>
     hdev sc' = hdev sc @ [RAW_REQUEST 0x01 (output_report_dmabuf sc')] \<and>
     process_one_work sc' = Some sc'"
proof -
  let ?sc' = "sixaxis_send_output_report (sc\<lparr>state_worker := False\<rparr>)"
  have "process_one_work sc = Some ?sc'"
    using assms by (simp add: process_one_work_def sony_state_worker_def)
  moreover have "hdev ?sc' = hdev sc @ [RAW_REQUEST 0x01 (output_report_dmabuf ?sc')]"
    using sixaxis_send_output_report_sends [of "sc\<lparr>state_worker := False\<rparr>"] by simp
  moreover have "process_one_work ?sc' = Some ?sc'"
    by (simp add: process_one_work_def sixaxis_send_output_report_keeps)
  ultimately show ?thesis by blast
qed

text \<open>
  Claim C7, as the code has it. While the latch \<open>defer_initialization\<close> is set,
  \<open>sony_schedule_work\<close> schedules nothing. A call of \<open>sony_raw_event\<close> with the latch
  set returns whenever the buffer holds 77 bytes, and when it returns there are two
  cases. A report rejected as spurious (a Sixaxis device, report id 0x01, size 49,
  byte 1 equal to 0xFF) gives \<open>-EINVAL\<close> and leaves the latch and everything else as
  it was. Every other report, decoded or not, gives 0, clears the latch, sends nothing
  itself and leaves the state worker pending if it was pending or if the worker is
  initialised. A pending state worker with the Sixaxis sender then sends one output
  report, built from the state at that moment, and a further turn of the worker thread
  sends nothing.
\<close>

theorem sony_raw_event_deferred_initialization:
  assumes "defer_initialization sc \<noteq> 0"
  shows "sony_schedule_work sc SONY_WORKER_STATE = sc \<and>
    (77 \<le> length rd \<longrightarrow> sony_raw_event sc rd sz \<noteq> None) \<and>
    (sony_raw_event sc rd sz = Some (ret, sc', rd') \<longrightarrow>
      (if quirks sc AND SIXAXIS_CONTROLLER \<noteq> 0 \<and> rd ! 0 = 1 \<and> sz = 49 \<and> rd ! 1 = 0xff
       then ret = - EINVAL \<and> sc' = sc \<and> rd' = rd
       else ret = 0 \<and> defer_initialization sc' = 0 \<and>
            state_worker sc' = (state_worker sc \<or> state_worker_initialized sc \<noteq> 0) \<and>
            hdev sc' = hdev sc)) \<and>
    (state_worker sc' \<and> send_output_report sc' = Some SIXAXIS_SEND_OUTPUT_REPORT \<longrightarrow>
      (\<exists>sc''. process_one_work sc' = Some sc'' \<and>
         hdev sc'' = hdev sc' @ [RAW_REQUEST 0x01 (output_report_dmabuf sc'')] \<and>
         process_one_work sc'' = Some sc''))"
proof (intro conjI impI)
  show "sony_schedule_work sc SONY_WORKER_STATE = sc" using assms by simp
next
  assume "77 \<le> length rd"
  then show "sony_raw_event sc rd sz \<noteq> None" by (rule sony_raw_event_returns)
next
  assume "sony_raw_event sc rd sz = Some (ret, sc', rd')"
  then show "(if quirks sc AND SIXAXIS_CONTROLLER \<noteq> 0 \<and> rd ! 0 = 1 \<and> sz = 49 \<and> rd ! 1 = 0xff
       then ret = - EINVAL \<and> sc' = sc \<and> rd' = rd
       else ret = 0 \<and> defer_initialization sc' = 0 \<and>
            state_worker sc' = (state_worker sc \<or> state_worker_initialized sc \<noteq> 0) \<and>
            hdev sc' = hdev sc)"
    using assms
    by (auto simp: sony_raw_event_def rd_at_def sony_raw_event_finish_eq
        split: if_splits Option.bind_splits dest!: sixaxis_parse_report_keeps)
next
  assume "state_worker sc' \<and> send_output_report sc' = Some SIXAXIS_SEND_OUTPUT_REPORT"
  then show "\<exists>sc''. process_one_work sc' = Some sc'' \<and>
         hdev sc'' = hdev sc' @ [RAW_REQUEST 0x01 (output_report_dmabuf sc'')] \<and>
         process_one_work sc'' = Some sc''"
    by (simp add: process_one_work_flushes_once)
qed

theorem sony_raw_event_deferred_initialization_witness:
  "defer_initialization
     (zeroed_sc\<lparr>quirks := SIXAXIS_CONTROLLER_USB, state_worker_initialized := 1,
                 send_output_report := Some SIXAXIS_SEND_OUTPUT_REPORT,
                 defer_initialization := 1\<rparr>) \<noteq> 0 \<and>
   77 \<le> length ((replicate 77 0)[0 := 1 :: u8]) \<and>
   sony_raw_event
     (zeroed_sc\<lparr>quirks := SIXAXIS_CONTROLLER_USB, state_worker_initialized := 1,
                 send_output_report := Some SIXAXIS_SEND_OUTPUT_REPORT,
                 defer_initialization := 1\<rparr>)
     ((replicate 77 0)[0 := 1]) 49 =
     Some (0,
       zeroed_sc\<lparr>quirks := SIXAXIS_CONTROLLER_USB, state_worker_initialized := 1,
                 send_output_report := Some SIXAXIS_SEND_OUTPUT_REPORT,
                 defer_initialization := 0, state_worker := True,
                 battery_status := POWER_SUPPLY_STATUS_DISCHARGING,
                 sensor_dev := [INPUT_ABS ABS_X (- 511), INPUT_ABS ABS_Y 511,
                                INPUT_ABS ABS_Z 511, INPUT_SYNC]\<rparr>,
       (replicate 77 0)[0 := 1]) \<and>
   (\<exists>sc''. process_one_work
       (zeroed_sc\<lparr>quirks := SIXAXIS_CONTROLLER_USB, state_worker_initialized := 1,
                 send_output_report := Some SIXAXIS_SEND_OUTPUT_REPORT,
                 defer_initialization := 0, state_worker := True,
                 battery_status := POWER_SUPPLY_STATUS_DISCHARGING,
                 sensor_dev := [INPUT_ABS ABS_X (- 511), INPUT_ABS ABS_Y 511,
                                INPUT_ABS ABS_Z 511, INPUT_SYNC]\<rparr>) = Some sc'' \<and>
      hdev sc'' = [RAW_REQUEST 0x01 (output_report_dmabuf sc'')] \<and>
      process_one_work sc'' = Some sc'')"
proof -
  let ?sc = "zeroed_sc\<lparr>quirks := SIXAXIS_CONTROLLER_USB, state_worker_initialized := 1,
                 send_output_report := Some SIXAXIS_SEND_OUTPUT_REPORT,
                 defer_initialization := 1\<rparr>"
  let ?rd = "(replicate 77 0)[0 := 1 :: u8]"
  let ?sc' = "zeroed_sc\<lparr>quirks := SIXAXIS_CONTROLLER_USB, state_worker_initialized := 1,
                 send_output_report := Some SIXAXIS_SEND_OUTPUT_REPORT,
                 defer_initialization := 0, state_worker := True,
                 battery_status := POWER_SUPPLY_STATUS_DISCHARGING,
                 sensor_dev := [INPUT_ABS ABS_X (- 511), INPUT_ABS ABS_Y 511,
                                INPUT_ABS ABS_Z 511, INPUT_SYNC]\<rparr>"
  have d: "defer_initialization ?sc \<noteq> 0" by simp
  have len: "77 \<le> length ?rd" by simp
  have ev: "sony_raw_event ?sc ?rd 49 = Some (0, ?sc', ?rd)" by code_simp
  have p: "state_worker ?sc' \<and> send_output_report ?sc' = Some SIXAXIS_SEND_OUTPUT_REPORT"
    by simp
  have h: "hdev ?sc' = []" by (simp add: zeroed_sc_def)
  have "\<exists>sc''. process_one_work ?sc' = Some sc'' \<and>
      hdev sc'' = hdev ?sc' @ [RAW_REQUEST 0x01 (output_report_dmabuf sc'')] \<and>
      process_one_work sc'' = Some sc''"
    using sony_raw_event_deferred_initialization [OF d, of ?rd 49 0 ?sc' ?rd] p by blast
  then show ?thesis using d len ev unfolding h by simp
qed

text \<open>
  The claim as it was stated fails: a report of 10 bytes is not decoded (battery and
  sensor values stay as they were), and yet it clears the latch and schedules the state
  worker.
\<close>

theorem sony_raw_event_deferred_initialization_counterexample:
  "sony_raw_event
     (zeroed_sc\<lparr>quirks := SIXAXIS_CONTROLLER_USB, state_worker_initialized := 1,
                 defer_initialization := 1\<rparr>)
     (replicate 10 0) 10 =
     Some (0,
       zeroed_sc\<lparr>quirks := SIXAXIS_CONTROLLER_USB, state_worker_initialized := 1,
                 defer_initialization := 0, state_worker := True\<rparr>,
       replicate 10 0)"
  by code_simp

section \<open>Setting an LED and the state worker\<close>

text \<open>
  Claim C6 does not hold of \<open>sony_led_set_brightness\<close>: it calls \<open>sony_set_leds\<close>,
  which sends at once through \<open>buzz_set_leds\<close> and never schedules the state worker.
  Two LED changes on a Bluetooth Sixaxis give two transfers, the first with the state
  in between, no work is pending afterwards, and a turn of the worker thread sends
  nothing more.
\<close>

theorem sony_led_set_brightness_sends_each_time:
  "hdev (sony_led_set_brightness (sony_led_set_brightness
     (zeroed_sc\<lparr>quirks := SIXAXIS_CONTROLLER_BT, leds := [11, 12, 13, 14], led_count := 4,
                 state_worker_initialized := 1,
                 send_output_report := Some SIXAXIS_SEND_OUTPUT_REPORT\<rparr>) 11 1) 12 1) =
     [HW_REQUEST [0, 255, 0, 0, 0, 0, 0], HW_REQUEST [0, 255, 255, 0, 0, 0, 0]] \<and>
   state_worker (sony_led_set_brightness (sony_led_set_brightness
     (zeroed_sc\<lparr>quirks := SIXAXIS_CONTROLLER_BT, leds := [11, 12, 13, 14], led_count := 4,
                 state_worker_initialized := 1,
                 send_output_report := Some SIXAXIS_SEND_OUTPUT_REPORT\<rparr>) 11 1) 12 1) = False \<and>
   map_option hdev (process_one_work (sony_led_set_brightness (sony_led_set_brightness
     (zeroed_sc\<lparr>quirks := SIXAXIS_CONTROLLER_BT, leds := [11, 12, 13, 14], led_count := 4,
                 state_worker_initialized := 1,
                 send_output_report := Some SIXAXIS_SEND_OUTPUT_REPORT\<rparr>) 11 1) 12 1)) =
     Some [HW_REQUEST [0, 255, 0, 0, 0, 0, 0], HW_REQUEST [0, 255, 255, 0, 0, 0, 0]]"
  by code_simp

text \<open>
  This is so for every call: \<open>sony_led_set_brightness\<close> never changes the pending bit
  of the state worker.
\<close>

lemma sony_led_set_brightness_never_schedules:
  "state_worker (sony_led_set_brightness drv_data led_dev val) = state_worker drv_data"
proof -
  have "state_worker (sony_led_set_brightness_loop ns drv_data led_dev val force_update) =
      state_worker drv_data" for ns force_update
    by (induction ns) (simp_all add: sony_set_leds_def buzz_set_leds_def)
  then show ?thesis by (simp add: sony_led_set_brightness_def)
qed

text \<open>
  The sibling \<open>sony_led_blink_set\<close> goes through \<open>sony_schedule_work\<close>: two changes and
  one turn of the worker thread give one output report, with both changes in it.
\<close>

lemma sony_led_blink_set_coalesces:
  "map_option hdev (process_one_work (fst (snd (sony_led_blink_set (fst (snd (sony_led_blink_set
     (zeroed_sc\<lparr>quirks := SIXAXIS_CONTROLLER_BT, leds := [11, 12, 13, 14], led_count := 4,
                 state_worker_initialized := 1,
                 send_output_report := Some SIXAXIS_SEND_OUTPUT_REPORT\<rparr>)
     11 100 200))) 12 300 400)))) =
   Some [RAW_REQUEST 0x01
     (default_report\<lparr>leds_bitmap := 0x20,
        led := [default_led, default_led,
                default_led\<lparr>duty_off := 40, duty_on := 30\<rparr>,
                default_led\<lparr>duty_off := 20, duty_on := 10\<rparr>]\<rparr>)]"
  by code_simp

end
